theory Spec2Isabelle
  imports Main "HOL-Library.Word" "HOL-Library.Sublist"
begin

section \<open>Values, errors and the outside world of \<^verbatim>\<open>main.py\<close>\<close>

text \<open>
  \<^verbatim>\<open>main.py\<close> is a FastAPI application whose handlers call third-party services and
  read or write one token file. The handlers are embedded as functions over an explicit
  world (the files on disk and the log of outbound calls); the answers of the libraries
  and services they call are fields of an environment record, so that every theorem
  holds for every behaviour of the outside.

  Python values that cross a handler are JSON-shaped. A Python \<^verbatim>\<open>float\<close> is kept as its
  IEEE-754 bit pattern: the handlers only pass floats on, they never compute with them.
  Python's \<^verbatim>\<open>None\<close> is \<open>JNull\<close>. A \<^verbatim>\<open>dict\<close> is an association list in insertion order.
\<close>

datatype json =
    JNull
  | JBool bool
  | JInt int
  | JFloat "64 word"
  | JStr string
  | JArr "json list"
  | JObj "(string \<times> json) list"

text \<open>
  Exceptions are values. \<open>ExternalError\<close> stands for whatever exception a library or
  upstream call raises (network failure, OAuth error, unreadable file, ...); the other
  constructors are the exceptions the handlers' own expressions raise.
\<close>

datatype error =
    HTTPStatusError nat
  | JSONDecodeError
  | KeyError string
  | AttributeError string
  | TypeError
  | ExternalError string

text \<open>
  What a handler hands back to the framework. \<open>ReturnedCoroutine f\<close> is the coroutine
  object that a call of the \<^verbatim>\<open>async def\<close> function \<open>f\<close> makes when nothing awaits it: the
  body of \<open>f\<close> has not run.
\<close>

datatype response =
    Returned json
  | ReturnedCoroutine string
  | JSONResponse json nat
  | RedirectResponse string

text \<open>
  The status the framework sends: a returned \<^verbatim>\<open>dict\<close> is a 200, \<^verbatim>\<open>JSONResponse\<close> carries
  its own \<^verbatim>\<open>status_code\<close>, and \<^verbatim>\<open>RedirectResponse\<close> defaults to 307. A coroutine object
  is not serialisable (\<^verbatim>\<open>jsonable_encoder\<close> raises \<^verbatim>\<open>ValueError\<close>), which the server answers
  with a 500.
\<close>

fun status_of :: "response \<Rightarrow> nat" where
  "status_of (Returned _) = 200"
| "status_of (ReturnedCoroutine _) = 500"
| "status_of (JSONResponse _ code) = code"
| "status_of (RedirectResponse _) = 307"

subsection \<open>Outbound calls\<close>

text \<open>One request through \<^verbatim>\<open>httpx.AsyncClient\<close>, with the keyword arguments the source gives.\<close>

record request =
  req_method :: string
  req_url :: string
  req_params :: "(string \<times> json) list"
  req_data :: "string option"
  req_headers :: "(string \<times> string) list"
  req_timeout :: "nat option"

text \<open>An \<^verbatim>\<open>httpx.Response\<close>: \<open>resp_json = None\<close> when the content is not JSON.\<close>

record http_response =
  status_code :: nat
  resp_json :: "json option"

text \<open>
  \<^verbatim>\<open>Flow.from_client_secrets_file(path, scopes=...)\<close> followed by the assignment of
  \<^verbatim>\<open>redirect_uri\<close>.
\<close>

record flow =
  client_secrets :: string
  flow_scopes :: "string list"
  redirect_uri :: "string option"

text \<open>
  A call on a service object made by \<^verbatim>\<open>build(api, version, credentials=creds)\<close>, for
  example \<^verbatim>\<open>service.events().insert(calendarId='primary', body=event).execute()\<close>.
  The credential object of the Google library is opaque to the program: it is the type
  parameter \<open>'c\<close>.
\<close>

record 'c google_request =
  g_api :: string
  g_version :: string
  g_credentials :: 'c
  g_method :: string
  g_kwargs :: "(string \<times> json) list"

datatype 'c outbound =
    Httpx request
  | FeedParse string
  | YfInfo string
  | YfHistory string string
  | FetchToken flow string
  | GoogleExecute "'c google_request"

subsection \<open>World and environment\<close>

record 'c world =
  files :: "string \<rightharpoonup> string"
  calls :: "'c outbound list"

text \<open>
  The module-level configuration (read from the process environment at import time) and
  the behaviour of everything outside the program.
\<close>

record 'c env =
  GOOGLE_CLIENT_SECRETS :: string
  GOOGLE_REDIRECT :: string
  TMDB_API_KEY :: string
  SPORTSDB_KEY :: string
  httpx_send :: "request \<Rightarrow> error + http_response"
  feedparser_parse :: "string \<Rightarrow> (string \<times> json) list list"
  yf_info :: "string \<Rightarrow> error + (string \<times> json) list"
  yf_history :: "string \<Rightarrow> string \<Rightarrow> error + 64 word list"
  float_str :: "64 word \<Rightarrow> string"
  from_client_secrets_file :: "string \<Rightarrow> string list \<Rightarrow> error + flow"
  fetch_token :: "flow \<Rightarrow> string \<Rightarrow> error + 'c"
  to_json :: "'c \<Rightarrow> string"
  from_authorized_user_info :: "string \<Rightarrow> string list \<Rightarrow> error + 'c"
  google_execute :: "'c google_request \<Rightarrow> error + json"
  mime_text_bytes :: "string \<Rightarrow> string \<Rightarrow> string \<Rightarrow> string"
  urlsafe_b64encode :: "string \<Rightarrow> string"

subsection \<open>Sequencing with exceptions\<close>

text \<open>
  A handler step takes the world and returns a result or an exception, with the world
  after the step. An exception ends the handler; what it did before stays done.
\<close>

type_synonym ('c, 'a) step = "'c world \<Rightarrow> (error + 'a) \<times> 'c world"

definition ret :: "'a \<Rightarrow> ('c, 'a) step" where
  "ret x w = (Inr x, w)"

definition pure_step :: "error + 'a \<Rightarrow> ('c, 'a) step" where
  "pure_step r w = (r, w)"

definition and_then :: "('c, 'a) step \<Rightarrow> ('a \<Rightarrow> ('c, 'b) step) \<Rightarrow> ('c, 'b) step" where
  "and_then m f w = (case m w of (Inl e, w') \<Rightarrow> (Inl e, w') | (Inr x, w') \<Rightarrow> f x w')"

definition outbound_call :: "'c outbound \<Rightarrow> error + 'a \<Rightarrow> ('c, 'a) step" where
  "outbound_call c r w = (r, w\<lparr>calls := calls w @ [c]\<rparr>)"

section \<open>Google OAuth: token storage and the delegated-access handlers\<close>

definition TOKENS_DIR :: string where
  "TOKENS_DIR = ''tokens''"

definition SCOPES :: "string list" where
  "SCOPES =
    [''https://www.googleapis.com/auth/calendar.events'',
     ''https://www.googleapis.com/auth/gmail.modify'',
     ''https://www.googleapis.com/auth/gmail.send'']"

text \<open>\<^verbatim>\<open>os.path.join\<close> of a directory name and a relative file name (POSIX).\<close>

definition os_path_join :: "string \<Rightarrow> string \<Rightarrow> string" where
  "os_path_join d f = d @ ''/'' @ f"

definition token_path :: string where
  "token_path = os_path_join TOKENS_DIR ''google_token.json''"

text \<open>
  \<^verbatim>\<open>load_google_creds\<close>: \<open>None\<close> when the token file does not exist, otherwise whatever
  \<^verbatim>\<open>Credentials.from_authorized_user_file\<close> makes of its content, exception included.
\<close>

definition load_google_creds :: "'c env \<Rightarrow> ('c, 'c option) step" where
  "load_google_creds env w =
     (case files w token_path of
        None \<Rightarrow> (Inr None, w)
      | Some content \<Rightarrow>
          (case from_authorized_user_info env content SCOPES of
             Inl e \<Rightarrow> (Inl e, w)
           | Inr creds \<Rightarrow> (Inr (Some creds), w)))"

definition not_authenticated :: response where
  "not_authenticated = JSONResponse (JObj [(''error'', JStr ''not_authenticated'')]) 401"

text \<open>
  The three delegated-access handlers. \<^verbatim>\<open>if not creds\<close> tests for \<^verbatim>\<open>None\<close>: a credential
  object defines neither \<^verbatim>\<open>__bool__\<close> nor \<^verbatim>\<open>__len__\<close>, so it is always true.
\<close>

definition create_event :: "'c env \<Rightarrow> string \<Rightarrow> string \<Rightarrow> string \<Rightarrow> ('c, response) step" where
  "create_event env summary start_iso end_iso =
     and_then (load_google_creds env) (\<lambda>creds.
       case creds of
         None \<Rightarrow> ret not_authenticated
       | Some c \<Rightarrow>
           (let event = JObj [(''summary'', JStr summary),
                              (''start'', JObj [(''dateTime'', JStr start_iso)]),
                              (''end'', JObj [(''dateTime'', JStr end_iso)])];
                rq = \<lparr>g_api = ''calendar'', g_version = ''v3'', g_credentials = c,
                      g_method = ''events.insert'',
                      g_kwargs = [(''calendarId'', JStr ''primary''), (''body'', event)]\<rparr>
            in and_then (outbound_call (GoogleExecute rq) (google_execute env rq))
                 (\<lambda>ev. ret (Returned ev))))"

definition gmail_threads :: "'c env \<Rightarrow> ('c, response) step" where
  "gmail_threads env =
     and_then (load_google_creds env) (\<lambda>creds.
       case creds of
         None \<Rightarrow> ret not_authenticated
       | Some c \<Rightarrow>
           (let rq = \<lparr>g_api = ''gmail'', g_version = ''v1'', g_credentials = c,
                      g_method = ''users.threads.list'',
                      g_kwargs = [(''userId'', JStr ''me''), (''maxResults'', JInt 10)]\<rparr>
            in and_then (outbound_call (GoogleExecute rq) (google_execute env rq))
                 (\<lambda>threads. ret (Returned threads))))"

definition gmail_send :: "'c env \<Rightarrow> string \<Rightarrow> string \<Rightarrow> string \<Rightarrow> ('c, response) step" where
  "gmail_send env to subject body =
     and_then (load_google_creds env) (\<lambda>creds.
       case creds of
         None \<Rightarrow> ret not_authenticated
       | Some c \<Rightarrow>
           (let raw = urlsafe_b64encode env (mime_text_bytes env body to subject);
                rq = \<lparr>g_api = ''gmail'', g_version = ''v1'', g_credentials = c,
                      g_method = ''users.messages.send'',
                      g_kwargs = [(''userId'', JStr ''me''),
                                  (''body'', JObj [(''raw'', JStr raw)])]\<rparr>
            in and_then (outbound_call (GoogleExecute rq) (google_execute env rq))
                 (\<lambda>sent. ret (Returned sent))))"

text \<open>
  \<^verbatim>\<open>oauth2callback\<close>: build the flow, exchange the code carried by the callback URL, write
  the credential's JSON to the token file, redirect. \<^verbatim>\<open>open(token_path, "w")\<close> replaces
  whatever the file held.
\<close>

definition write_file :: "string \<Rightarrow> string \<Rightarrow> ('c, unit) step" where
  "write_file path content w = (Inr (), w\<lparr>files := (files w)(path \<mapsto> content)\<rparr>)"

definition oauth2callback :: "'c env \<Rightarrow> string \<Rightarrow> ('c, response) step" where
  "oauth2callback env full_url =
     and_then (pure_step (from_client_secrets_file env (GOOGLE_CLIENT_SECRETS env) SCOPES))
       (\<lambda>fl0.
         let fl = fl0\<lparr>redirect_uri := Some (GOOGLE_REDIRECT env)\<rparr> in
         and_then (outbound_call (FetchToken fl full_url) (fetch_token env fl full_url))
           (\<lambda>creds.
             and_then (write_file token_path (to_json env creds))
               (\<lambda>_. ret (RedirectResponse ''/?auth=ok''))))"

section \<open>Python expressions on JSON values\<close>

text \<open>\<^verbatim>\<open>d.get(k)\<close> on a \<^verbatim>\<open>dict\<close>: the value, or \<^verbatim>\<open>None\<close>.\<close>

definition dict_get :: "(string \<times> json) list \<Rightarrow> string \<Rightarrow> json" where
  "dict_get d k = (case map_of d k of None \<Rightarrow> JNull | Some v \<Rightarrow> v)"

text \<open>\<^verbatim>\<open>x.get(k, default)\<close> on a decoded JSON value: only a \<^verbatim>\<open>dict\<close> has \<^verbatim>\<open>get\<close>.\<close>

fun py_get :: "json \<Rightarrow> string \<Rightarrow> json \<Rightarrow> error + json" where
  "py_get (JObj d) k dflt = Inr (case map_of d k of None \<Rightarrow> dflt | Some v \<Rightarrow> v)"
| "py_get _ k dflt = Inl (AttributeError ''get'')"

text \<open>\<^verbatim>\<open>x[k]\<close> with a string key.\<close>

fun subscript :: "json \<Rightarrow> string \<Rightarrow> error + json" where
  "subscript (JObj d) k = (case map_of d k of None \<Rightarrow> Inl (KeyError k) | Some v \<Rightarrow> Inr v)"
| "subscript _ k = Inl TypeError"

text \<open>\<^verbatim>\<open>for g in x\<close>: the elements of a list, the keys of a dict, the characters of a string.\<close>

fun py_iter :: "json \<Rightarrow> error + json list" where
  "py_iter (JArr xs) = Inr xs"
| "py_iter (JObj d) = Inr (map (\<lambda>kv. JStr (fst kv)) d)"
| "py_iter (JStr s) = Inr (map (\<lambda>c. JStr [c]) s)"
| "py_iter _ = Inl TypeError"

text \<open>
  \<^verbatim>\<open>str.lower\<close>. Strings are byte strings here; the letters A to Z are mapped and every
  other byte is kept.
\<close>

definition lower_char :: "char \<Rightarrow> char" where
  "lower_char c =
     (let n = (of_char c :: nat) in if 65 \<le> n \<and> n \<le> 90 then char_of (n + 32) else c)"

definition lower :: "string \<Rightarrow> string" where
  "lower s = map lower_char s"

fun py_lower :: "json \<Rightarrow> error + string" where
  "py_lower (JStr s) = Inr (lower s)"
| "py_lower _ = Inl (AttributeError ''lower'')"

text \<open>The truth value of \<^verbatim>\<open>if x:\<close>. A float is false when it is \<open>+0.0\<close> or \<open>-0.0\<close>.\<close>

fun truthy :: "json \<Rightarrow> bool" where
  "truthy JNull = False"
| "truthy (JBool b) = b"
| "truthy (JInt i) = (i \<noteq> 0)"
| "truthy (JFloat f) = (f \<noteq> 0 \<and> f \<noteq> 0x8000000000000000)"
| "truthy (JStr s) = (s \<noteq> [])"
| "truthy (JArr xs) = (xs \<noteq> [])"
| "truthy (JObj d) = (d \<noteq> [])"




section \<open>The \<^verbatim>\<open>httpx\<close> client\<close>

definition client_send :: "'c env \<Rightarrow> request \<Rightarrow> ('c, http_response) step" where
  "client_send env rq = outbound_call (Httpx rq) (httpx_send env rq)"

text \<open>\<^verbatim>\<open>r.raise_for_status()\<close>: any status outside 200..299 is an \<^verbatim>\<open>HTTPStatusError\<close>.\<close>

definition raise_for_status :: "http_response \<Rightarrow> error + unit" where
  "raise_for_status r =
     (if 200 \<le> status_code r \<and> status_code r < 300 then Inr ()
      else Inl (HTTPStatusError (status_code r)))"

definition response_json :: "http_response \<Rightarrow> error + json" where
  "response_json r = (case resp_json r of None \<Rightarrow> Inl JSONDecodeError | Some j \<Rightarrow> Inr j)"

text \<open>The common tail of the proxy handlers: check the status, decode, return.\<close>

definition checked_json :: "http_response \<Rightarrow> ('c, response) step" where
  "checked_json r =
     and_then (pure_step (raise_for_status r))
       (\<lambda>_. and_then (pure_step (response_json r)) (\<lambda>j. ret (Returned j)))"


section \<open>Stock\<close>

text \<open>
  The body of \<^verbatim>\<open>fetch_stock_price\<close>, which is what awaiting its coroutine would run:
  the live price from \<^verbatim>\<open>ticker.info\<close>, else the last close of the one-day history when
  the history has rows, else \<^verbatim>\<open>None\<close>. \<^verbatim>\<open>float(x)\<close> of a float is the float itself.
\<close>

definition fetch_stock_price :: "'c env \<Rightarrow> string \<Rightarrow> ('c, json) step" where
  "fetch_stock_price env symbol =
     and_then (outbound_call (YfInfo symbol) (yf_info env symbol))
       (\<lambda>info.
         let price = dict_get info ''regularMarketPrice'' in
         and_then
           (if price = JNull then
              and_then (outbound_call (YfHistory symbol ''1d'') (yf_history env symbol ''1d''))
                (\<lambda>hist. ret (if hist \<noteq> [] then JFloat (last hist) else price))
            else ret price)
           (\<lambda>price.
             ret (JObj [(''symbol'', JStr symbol),
                        (''price'', price),
                        (''info_head'',
                           JObj (map (\<lambda>k. (k, dict_get info k)) [''shortName'', ''currency'']))])))"

text \<open>
  \<^verbatim>\<open>get_stock\<close> returns \<^verbatim>\<open>await run_in_threadpool(fetch_stock_price, symbol)\<close>.
  \<^verbatim>\<open>run_in_threadpool(func, *args)\<close> calls \<^verbatim>\<open>func(*args)\<close> in a worker thread and hands
  back what that call returns. \<^verbatim>\<open>fetch_stock_price\<close> is declared \<^verbatim>\<open>async def\<close>, so
  the call returns a coroutine object and runs none of the body; nothing awaits it, and
  the handler returns the coroutine object itself.
\<close>

definition run_in_threadpool_async :: "string \<Rightarrow> ('c, response) step" where
  "run_in_threadpool_async func_name = ret (ReturnedCoroutine func_name)"

definition get_stock :: "'c env \<Rightarrow> string \<Rightarrow> ('c, response) step" where
  "get_stock env symbol = run_in_threadpool_async ''fetch_stock_price''"

section \<open>Places\<close>





section \<open>Movies\<close>

text \<open>
  The loop that looks the genre up: \<^verbatim>\<open>genre_id\<close> starts as \<^verbatim>\<open>None\<close> and the first entry
  whose lower-cased name equals the lower-cased \<^verbatim>\<open>genre\<close> sets it and ends the loop.
\<close>

fun find_genre_id :: "json list \<Rightarrow> string \<Rightarrow> error + json" where
  "find_genre_id [] genre = Inr JNull"
| "find_genre_id (g # gs) genre =
     (case subscript g ''name'' of
        Inl e \<Rightarrow> Inl e
      | Inr name \<Rightarrow>
          (case py_lower name of
             Inl e \<Rightarrow> Inl e
           | Inr lname \<Rightarrow>
               if lname = lower genre then subscript g ''id'' else find_genre_id gs genre))"

definition movies_fallback :: json where
  "movies_fallback =
     JObj [(''results'',
       JArr [JObj [(''title'', JStr ''Inception''),
                   (''genres'', JArr [JStr ''Action'', JStr ''Sci-Fi''])],
             JObj [(''title'', JStr ''The Shawshank Redemption''),
                   (''genres'', JArr [JStr ''Drama''])]])]"

definition discover_params :: "'c env \<Rightarrow> int \<Rightarrow> json \<Rightarrow> (string \<times> json) list" where
  "discover_params env page genre_id =
     (let params = [(''api_key'', JStr (TMDB_API_KEY env)), (''page'', JInt page)]
      in if truthy genre_id then params @ [(''with_genres'', genre_id)] else params)"

definition get_request :: "string \<Rightarrow> (string \<times> json) list \<Rightarrow> request" where
  "get_request url params =
     \<lparr>req_method = ''GET'', req_url = url, req_params = params, req_data = None,
      req_headers = [], req_timeout = None\<rparr>"

definition movies :: "'c env \<Rightarrow> string \<Rightarrow> int \<Rightarrow> ('c, response) step" where
  "movies env genre page =
     (if TMDB_API_KEY env \<noteq> [] then
        and_then
          (client_send env
             (get_request ''https://api.themoviedb.org/3/genre/movie/list''
                [(''api_key'', JStr (TMDB_API_KEY env))]))
          (\<lambda>genres_r.
            and_then (pure_step (raise_for_status genres_r)) (\<lambda>_.
            and_then (pure_step (response_json genres_r)) (\<lambda>j.
            and_then (pure_step (py_get j ''genres'' (JArr []))) (\<lambda>genres.
            and_then (pure_step (py_iter genres)) (\<lambda>gs.
            and_then (pure_step (find_genre_id gs genre)) (\<lambda>genre_id.
            and_then
              (client_send env
                 (get_request ''https://api.themoviedb.org/3/discover/movie''
                    (discover_params env page genre_id)))
              checked_json))))))
      else ret (Returned movies_fallback))"

section \<open>Sports\<close>

definition sports :: "'c env \<Rightarrow> string \<Rightarrow> string \<Rightarrow> ('c, response) step" where
  "sports env sport team =
     (let base = ''https://www.thesportsdb.com/api/v1/json'';
          key = (if SPORTSDB_KEY env \<noteq> [] then SPORTSDB_KEY env else ''1'')
      in if team \<noteq> [] then
           and_then
             (client_send env
                (get_request (base @ ''/'' @ key @ ''/searchteams.php'') [(''t'', JStr team)]))
             checked_json
         else
           and_then
             (client_send env
                (get_request (base @ ''/'' @ key @ ''/search_all_teams.php'')
                   [(''l'', JStr sport)]))
             checked_json)"

section \<open>News\<close>

text \<open>\<^verbatim>\<open>query.replace(" ", "+")\<close>\<close>

definition replace_space_plus :: "string \<Rightarrow> string" where
  "replace_space_plus s = map (\<lambda>c. if c = CHR '' '' then CHR ''+'' else c) s"

text \<open>
  \<^verbatim>\<open>e.title\<close> on a feed entry: the entry is a dict whose attribute access raises
  \<^verbatim>\<open>AttributeError\<close> for a key it does not have.
\<close>

definition entry_attr :: "(string \<times> json) list \<Rightarrow> string \<Rightarrow> error + json" where
  "entry_attr e k = (case map_of e k of None \<Rightarrow> Inl (AttributeError k) | Some v \<Rightarrow> Inr v)"

text \<open>The loop over \<^verbatim>\<open>d.entries[:12]\<close>, appending to \<^verbatim>\<open>items\<close>.\<close>

fun news_loop :: "(string \<times> json) list list \<Rightarrow> json list \<Rightarrow> error + json list" where
  "news_loop [] items = Inr items"
| "news_loop (e # es) items =
     (case entry_attr e ''title'' of
        Inl err \<Rightarrow> Inl err
      | Inr title \<Rightarrow>
          (case entry_attr e ''link'' of
             Inl err \<Rightarrow> Inl err
           | Inr link \<Rightarrow>
               news_loop es
                 (items @ [JObj [(''title'', title), (''link'', link),
                                 (''published'', dict_get e ''published'')]])))"

definition rss_url :: "string \<Rightarrow> string" where
  "rss_url query =
     ''https://news.google.com/rss/search?q='' @ replace_space_plus query
       @ ''&hl=en-IN&gl=IN&ceid=IN:en''"

definition news :: "'c env \<Rightarrow> string \<Rightarrow> ('c, response) step" where
  "news env query =
     and_then (outbound_call (FeedParse (rss_url query)) (Inr (feedparser_parse env (rss_url query))))
       (\<lambda>entries.
         and_then (pure_step (news_loop (take 12 entries) []))
           (\<lambda>items. ret (Returned (JObj [(''query'', JStr query), (''items'', JArr items)]))))"


section \<open>A concrete outside world\<close>

text \<open>
  One environment on which the handlers can be run: the credential object is its own JSON
  text, the code \<open>good\<close> is the only one the provider accepts, and the token text \<open>garbage\<close>
  is the only one the credential parser rejects. The genre list has a genre whose id is 0.
\<close>

definition demo_genres :: json where
  "demo_genres =
     JObj [(''genres'',
       JArr [JObj [(''id'', JInt 28), (''name'', JStr ''Action'')],
             JObj [(''id'', JInt 0), (''name'', JStr ''Unrated'')],
             JObj [(''id'', JInt 18), (''name'', JStr ''Drama'')]])]"

definition demo_httpx :: "request \<Rightarrow> error + http_response" where
  "demo_httpx rq =
     (if req_url rq = ''https://api.themoviedb.org/3/genre/movie/list''
      then Inr \<lparr>status_code = 200, resp_json = Some demo_genres\<rparr>
      else Inr \<lparr>status_code = 200, resp_json = Some (JObj [(''results'', JArr [])])\<rparr>)"

definition demo_feed :: "string \<Rightarrow> (string \<times> json) list list" where
  "demo_feed url =
     [[(''title'', JStr ''First''), (''link'', JStr ''https://example.org/1''),
       (''published'', JStr ''Mon, 02 Nov 2026 10:00:00 GMT'')],
      [(''title'', JStr ''Second''), (''link'', JStr ''https://example.org/2'')]]"

definition demo_info :: "string \<Rightarrow> error + (string \<times> json) list" where
  "demo_info symbol =
     (if symbol = ''AAPL''
      then Inr [(''regularMarketPrice'', JInt 190), (''shortName'', JStr ''Apple Inc.''),
                (''currency'', JStr ''USD'')]
      else Inr [(''shortName'', JStr ''Other'')])"

definition demo_history :: "string \<Rightarrow> string \<Rightarrow> error + 64 word list" where
  "demo_history symbol period =
     (if symbol = ''HIST'' then Inr [0x4058C00000000000, 0x4059000000000000] else Inr [])"

definition demo_env :: "string env" where
  "demo_env =
     \<lparr>GOOGLE_CLIENT_SECRETS = ''client_secret.json'',
      GOOGLE_REDIRECT = ''http://localhost:8000/oauth2callback'',
      TMDB_API_KEY = [],
      SPORTSDB_KEY = ''1'',
      httpx_send = demo_httpx,
      feedparser_parse = demo_feed,
      yf_info = demo_info,
      yf_history = demo_history,
      float_str = (\<lambda>f. if f = 0x403C9C28F5C28F5C then ''28.61'' else ''77.23''),
      from_client_secrets_file =
        (\<lambda>path scopes. Inr \<lparr>client_secrets = path, flow_scopes = scopes, redirect_uri = None\<rparr>),
      fetch_token =
        (\<lambda>fl url. if url = ''http://localhost:8000/oauth2callback?code=good''
                  then Inr ''{token}'' else Inl (ExternalError ''invalid_grant'')),
      to_json = (\<lambda>c. c),
      from_authorized_user_info =
        (\<lambda>content scopes. if content = ''garbage'' then Inl (ExternalError ''ValueError'')
                           else Inr content),
      google_execute = (\<lambda>rq. Inr (JObj [(''id'', JStr ''1'')])),
      mime_text_bytes = (\<lambda>body to subject. ''To: '' @ to @ '' Subject: '' @ subject @ '' '' @ body),
      urlsafe_b64encode = (\<lambda>bytes. bytes)\<rparr>"


definition empty_world :: "string world" where
  "empty_world = \<lparr>files = Map.empty, calls = []\<rparr>"

definition garbage_world :: "string world" where
  "garbage_world = \<lparr>files = [token_path \<mapsto> ''garbage''], calls = []\<rparr>"




section \<open>Theorems\<close>

subsection \<open>Delegated access without a stored credential\<close>

text \<open>
  C1. Each of the three delegated-access handlers (\<^verbatim>\<open>POST /api/create_event\<close>,
  \<^verbatim>\<open>GET /api/gmail_threads\<close>, \<^verbatim>\<open>POST /api/gmail_send\<close>), called when the token file does not
  exist, answers the JSON body \<open>{error: not_authenticated}\<close> with status 401 and leaves the
  world as it was: the log of outbound calls gains nothing, so the provider is not
  contacted.
\<close>

theorem no_credential_answers_401_without_calls:
  assumes "files w token_path = None"
  shows "create_event env summary start_iso end_iso w =
           (Inr (JSONResponse (JObj [(''error'', JStr ''not_authenticated'')]) 401), w)
       \<and> gmail_threads env w =
           (Inr (JSONResponse (JObj [(''error'', JStr ''not_authenticated'')]) 401), w)
       \<and> gmail_send env to subject body w =
           (Inr (JSONResponse (JObj [(''error'', JStr ''not_authenticated'')]) 401), w)"
proof -
  have load: "load_google_creds env w = (Inr None, w)"
    using assms by (simp add: load_google_creds_def)
  show ?thesis
    by (simp add: create_event_def gmail_threads_def gmail_send_def and_then_def ret_def
        load not_authenticated_def)
qed

theorem no_credential_answers_401_without_calls_witness:
  "files empty_world token_path = None
   \<and> create_event demo_env ''Lunch'' ''2026-11-04T12:00:00Z'' ''2026-11-04T13:00:00Z'' empty_world =
       (Inr (JSONResponse (JObj [(''error'', JStr ''not_authenticated'')]) 401), empty_world)
   \<and> gmail_threads demo_env empty_world =
       (Inr (JSONResponse (JObj [(''error'', JStr ''not_authenticated'')]) 401), empty_world)
   \<and> gmail_send demo_env ''a@example.org'' ''Hi'' ''Hello'' empty_world =
       (Inr (JSONResponse (JObj [(''error'', JStr ''not_authenticated'')]) 401), empty_world)
   \<and> calls empty_world = []"
proof -
  have absent: "files empty_world token_path = None"
    by (simp add: empty_world_def)
  from no_credential_answers_401_without_calls [OF absent, of demo_env]
  show ?thesis using absent by (simp add: empty_world_def)
qed

subsection \<open>The credential loader\<close>

text \<open>
  C10. \<^verbatim>\<open>load_google_creds\<close> returns \<^verbatim>\<open>None\<close> exactly when the token file does not exist.
  When the file exists and the credential parser raises on its content, the loader raises
  that exception, and so does each delegated-access handler: the caller gets a server
  error, not the 401 answer, and no call to the provider is made.
\<close>

theorem load_absent_iff_no_token_file:
  "(fst (load_google_creds env w) = Inr None \<longleftrightarrow> files w token_path = None)
   \<and> (files w token_path = Some content \<longrightarrow>
        from_authorized_user_info env content SCOPES = Inl e \<longrightarrow>
          load_google_creds env w = (Inl e, w)
        \<and> create_event env summary start_iso end_iso w = (Inl e, w)
        \<and> gmail_threads env w = (Inl e, w)
        \<and> gmail_send env to subject body w = (Inl e, w))"
  by (auto simp: load_google_creds_def create_event_def gmail_threads_def gmail_send_def
      and_then_def split: option.splits sum.splits)

theorem load_absent_iff_no_token_file_witness:
  "files garbage_world token_path = Some ''garbage''
   \<and> from_authorized_user_info demo_env ''garbage'' SCOPES = Inl (ExternalError ''ValueError'')
   \<and> fst (load_google_creds demo_env garbage_world) \<noteq> Inr None
   \<and> create_event demo_env ''Lunch'' ''12:00'' ''13:00'' garbage_world =
        (Inl (ExternalError ''ValueError''), garbage_world)
   \<and> gmail_threads demo_env garbage_world = (Inl (ExternalError ''ValueError''), garbage_world)
   \<and> gmail_send demo_env ''a@example.org'' ''Hi'' ''Hello'' garbage_world =
        (Inl (ExternalError ''ValueError''), garbage_world)"
proof -
  have present: "files garbage_world token_path = Some ''garbage''"
    by (simp add: garbage_world_def)
  have rejected:
    "from_authorized_user_info demo_env ''garbage'' SCOPES = Inl (ExternalError ''ValueError'')"
    by (simp add: demo_env_def)
  from load_absent_iff_no_token_file
    [of demo_env garbage_world "''garbage''" "ExternalError ''ValueError''"]
  show ?thesis using present rejected by simp
qed


subsection \<open>Requests that are checked and decoded\<close>

text \<open>
  A request whose answer goes through \<open>checked_json\<close> is logged exactly once, whatever the
  upstream answers.
\<close>

lemma calls_after_checked_request:
  "calls (snd (and_then (client_send env rq) checked_json w)) = calls w @ [Httpx rq]"
  by (simp add: and_then_def client_send_def outbound_call_def checked_json_def pure_step_def
      ret_def split: sum.splits)

subsection \<open>The OAuth callback\<close>

text \<open>
  C2. When the code exchange \<^verbatim>\<open>flow.fetch_token\<close> raises, \<^verbatim>\<open>GET /oauth2callback\<close> fails with
  that exception and the files are what they were: no token file is written. If there was
  no token file before (the broker was waiting for the callback), there is none after,
  and each delegated-access handler still answers 401 \<open>not_authenticated\<close>.
\<close>

theorem failed_exchange_writes_nothing:
  assumes flow: "from_client_secrets_file env (GOOGLE_CLIENT_SECRETS env) SCOPES = Inr fl0"
    and exchange:
      "fetch_token env (fl0\<lparr>redirect_uri := Some (GOOGLE_REDIRECT env)\<rparr>) full_url = Inl e"
    and after: "w' = snd (oauth2callback env full_url w)"
  shows "fst (oauth2callback env full_url w) = Inl e
       \<and> files w' = files w
       \<and> (files w token_path = None \<longrightarrow>
            fst (create_event env summary start_iso end_iso w') =
              Inr (JSONResponse (JObj [(''error'', JStr ''not_authenticated'')]) 401)
          \<and> fst (gmail_threads env w') =
              Inr (JSONResponse (JObj [(''error'', JStr ''not_authenticated'')]) 401)
          \<and> fst (gmail_send env to subject body w') =
              Inr (JSONResponse (JObj [(''error'', JStr ''not_authenticated'')]) 401))"
proof -
  let ?fl = "fl0\<lparr>redirect_uri := Some (GOOGLE_REDIRECT env)\<rparr>"
  have run: "oauth2callback env full_url w = (Inl e, w\<lparr>calls := calls w @ [FetchToken ?fl full_url]\<rparr>)"
    using flow exchange
    by (simp add: oauth2callback_def and_then_def pure_step_def outbound_call_def Let_def)
  have failed: "fst (oauth2callback env full_url w) = Inl e"
    by (simp add: run)
  have kept: "files w' = files w"
    by (simp add: after run)
  have load: "load_google_creds env w' = (Inr None, w')" if "files w token_path = None"
    using that by (simp add: load_google_creds_def kept)
  have denied: "fst (create_event env summary start_iso end_iso w') =
              Inr (JSONResponse (JObj [(''error'', JStr ''not_authenticated'')]) 401)
          \<and> fst (gmail_threads env w') =
              Inr (JSONResponse (JObj [(''error'', JStr ''not_authenticated'')]) 401)
          \<and> fst (gmail_send env to subject body w') =
              Inr (JSONResponse (JObj [(''error'', JStr ''not_authenticated'')]) 401)"
    if "files w token_path = None"
    by (simp add: create_event_def gmail_threads_def gmail_send_def and_then_def ret_def
        load [OF that] not_authenticated_def)
  show ?thesis
    using failed kept denied by blast
qed

theorem failed_exchange_writes_nothing_witness:
  "from_client_secrets_file demo_env (GOOGLE_CLIENT_SECRETS demo_env) SCOPES =
     Inr \<lparr>client_secrets = ''client_secret.json'', flow_scopes = SCOPES, redirect_uri = None\<rparr>
   \<and> fst (oauth2callback demo_env ''http://localhost:8000/oauth2callback?code=expired'' empty_world) =
       Inl (ExternalError ''invalid_grant'')
   \<and> files (snd (oauth2callback demo_env ''http://localhost:8000/oauth2callback?code=expired''
                  empty_world)) = files empty_world
   \<and> files empty_world token_path = None
   \<and> fst (gmail_threads demo_env
        (snd (oauth2callback demo_env ''http://localhost:8000/oauth2callback?code=expired''
               empty_world))) =
       Inr (JSONResponse (JObj [(''error'', JStr ''not_authenticated'')]) 401)"
proof -
  let ?fl0 = "\<lparr>client_secrets = ''client_secret.json'', flow_scopes = SCOPES, redirect_uri = None\<rparr>"
  have flow: "from_client_secrets_file demo_env (GOOGLE_CLIENT_SECRETS demo_env) SCOPES = Inr ?fl0"
    by (simp add: demo_env_def)
  have exchange:
    "fetch_token demo_env (?fl0\<lparr>redirect_uri := Some (GOOGLE_REDIRECT demo_env)\<rparr>)
       ''http://localhost:8000/oauth2callback?code=expired'' = Inl (ExternalError ''invalid_grant'')"
    by (simp add: demo_env_def)
  have absent: "files empty_world token_path = None"
    by (simp add: empty_world_def)
  from failed_exchange_writes_nothing [OF flow exchange refl, of empty_world]
  show ?thesis using flow absent by blast
qed




subsection \<open>Movies without an API key\<close>

text \<open>
  C5. When \<^verbatim>\<open>TMDB_API_KEY\<close> is empty, \<^verbatim>\<open>GET /api/movies\<close> returns the fixed list of two
  entries for every \<open>genre\<close> and \<open>page\<close>, as a normal return, and the world is unchanged:
  no outbound call is made.
\<close>

theorem movies_without_key_is_fallback:
  assumes "TMDB_API_KEY env = []"
  shows "movies env genre page w =
    (Inr (Returned (JObj [(''results'',
       JArr [JObj [(''title'', JStr ''Inception''),
                   (''genres'', JArr [JStr ''Action'', JStr ''Sci-Fi''])],
             JObj [(''title'', JStr ''The Shawshank Redemption''),
                   (''genres'', JArr [JStr ''Drama''])]])])), w)"
  using assms by (simp add: movies_def ret_def movies_fallback_def)

theorem movies_without_key_is_fallback_witness:
  "TMDB_API_KEY demo_env = []
   \<and> movies demo_env ''Action'' 3 empty_world =
    (Inr (Returned (JObj [(''results'',
       JArr [JObj [(''title'', JStr ''Inception''),
                   (''genres'', JArr [JStr ''Action'', JStr ''Sci-Fi''])],
             JObj [(''title'', JStr ''The Shawshank Redemption''),
                   (''genres'', JArr [JStr ''Drama''])]])])), empty_world)
   \<and> movies demo_env ''Action'' 3 empty_world = movies demo_env [] 1 empty_world"
proof -
  have nokey: "TMDB_API_KEY demo_env = []"
    by (simp add: demo_env_def)
  from movies_without_key_is_fallback [OF nokey, of "''Action''" 3 empty_world]
    movies_without_key_is_fallback [OF nokey, of "[]" 1 empty_world]
  show ?thesis using nokey by simp
qed

subsection \<open>Sports\<close>

text \<open>
  C9. With a non-empty \<open>team\<close>, \<^verbatim>\<open>GET /api/sports\<close> does the same for any two values of
  \<open>sport\<close>: the same result and the same world, the one outbound request being the team
  search with parameter \<open>t = team\<close>. With an empty \<open>team\<close> the outbound request is the
  listing of all teams with parameter \<open>l = sport\<close>.
\<close>

theorem sports_team_search_ignores_sport:
  "(team \<noteq> [] \<longrightarrow>
      sports env sport1 team w = sports env sport2 team w
    \<and> calls (snd (sports env sport1 team w)) =
        calls w @ [Httpx (get_request
          (''https://www.thesportsdb.com/api/v1/json/''
             @ (if SPORTSDB_KEY env \<noteq> [] then SPORTSDB_KEY env else ''1'') @ ''/searchteams.php'')
          [(''t'', JStr team)])])
   \<and> (team = [] \<longrightarrow>
      calls (snd (sports env sport1 team w)) =
        calls w @ [Httpx (get_request
          (''https://www.thesportsdb.com/api/v1/json/''
             @ (if SPORTSDB_KEY env \<noteq> [] then SPORTSDB_KEY env else ''1'')
             @ ''/search_all_teams.php'')
          [(''l'', JStr sport1)])])"
proof -
  have same: "team \<noteq> [] \<Longrightarrow> sports env sport1 team w = sports env sport2 team w"
    by (simp add: sports_def)
  have by_team: "team \<noteq> [] \<Longrightarrow> calls (snd (sports env sport1 team w)) =
        calls w @ [Httpx (get_request
          (''https://www.thesportsdb.com/api/v1/json/''
             @ (if SPORTSDB_KEY env \<noteq> [] then SPORTSDB_KEY env else ''1'') @ ''/searchteams.php'')
          [(''t'', JStr team)])]"
    by (simp add: sports_def Let_def calls_after_checked_request)
  have by_sport: "team = [] \<Longrightarrow> calls (snd (sports env sport1 team w)) =
        calls w @ [Httpx (get_request
          (''https://www.thesportsdb.com/api/v1/json/''
             @ (if SPORTSDB_KEY env \<noteq> [] then SPORTSDB_KEY env else ''1'')
             @ ''/search_all_teams.php'')
          [(''l'', JStr sport1)])]"
    by (simp add: sports_def Let_def calls_after_checked_request)
  show ?thesis using same by_team by_sport by blast
qed

theorem sports_team_search_ignores_sport_witness:
  "''Arsenal'' \<noteq> []
   \<and> sports demo_env ''Soccer'' ''Arsenal'' empty_world =
       sports demo_env ''Cricket'' ''Arsenal'' empty_world
   \<and> calls (snd (sports demo_env ''Soccer'' ''Arsenal'' empty_world)) =
       [Httpx (get_request ''https://www.thesportsdb.com/api/v1/json/1/searchteams.php''
          [(''t'', JStr ''Arsenal'')])]
   \<and> calls (snd (sports demo_env ''Soccer'' [] empty_world)) =
       [Httpx (get_request ''https://www.thesportsdb.com/api/v1/json/1/search_all_teams.php''
          [(''l'', JStr ''Soccer'')])]"
proof -
  have key: "SPORTSDB_KEY demo_env = ''1''"
    by (simp add: demo_env_def)
  have no_calls: "calls empty_world = []"
    by (simp add: empty_world_def)
  have given: "''Arsenal'' \<noteq> ([] :: string)"
    by simp
  note with_team = sports_team_search_ignores_sport
    [of "''Arsenal''" demo_env "''Soccer''" empty_world "''Cricket''", THEN conjunct1, THEN mp,
     OF given]
  note without_team = sports_team_search_ignores_sport
    [of "[]" demo_env "''Soccer''" empty_world "''Cricket''", THEN conjunct2, THEN mp, OF refl]
  have same: "sports demo_env ''Soccer'' ''Arsenal'' empty_world =
       sports demo_env ''Cricket'' ''Arsenal'' empty_world"
    by (rule with_team [THEN conjunct1])
  have team_call: "calls (snd (sports demo_env ''Soccer'' ''Arsenal'' empty_world)) =
       [Httpx (get_request ''https://www.thesportsdb.com/api/v1/json/1/searchteams.php''
          [(''t'', JStr ''Arsenal'')])]"
    using with_team [THEN conjunct2] by (simp add: key no_calls)
  have sport_call: "calls (snd (sports demo_env ''Soccer'' [] empty_world)) =
       [Httpx (get_request ''https://www.thesportsdb.com/api/v1/json/1/search_all_teams.php''
          [(''l'', JStr ''Soccer'')])]"
    using without_team by (simp add: key no_calls)
  show ?thesis
    using given same team_call sport_call by blast
qed

subsection \<open>News\<close>

text \<open>
  The loop appends one item per entry, in order, and needs a title and a link in each; it
  returns for every list of entries that all have both.
\<close>

lemma news_loop_items:
  "news_loop es acc = Inr items \<Longrightarrow>
     \<exists>new. items = acc @ new
       \<and> list_all2 (\<lambda>e item. \<exists>title link.
             map_of e ''title'' = Some title \<and> map_of e ''link'' = Some link
           \<and> item = JObj [(''title'', title), (''link'', link),
                          (''published'', dict_get e ''published'')]) es new"
proof (induction es arbitrary: acc)
  case Nil
  then show ?case by simp
next
  case (Cons e es)
  from Cons.prems obtain title link where
    title: "map_of e ''title'' = Some title" and link: "map_of e ''link'' = Some link" and
    rest: "news_loop es (acc @ [JObj [(''title'', title), (''link'', link),
                          (''published'', dict_get e ''published'')]]) = Inr items"
    by (auto simp: entry_attr_def split: option.splits sum.splits)
  from Cons.IH [OF rest] obtain new where
    new: "items = (acc @ [JObj [(''title'', title), (''link'', link),
                          (''published'', dict_get e ''published'')]]) @ new" and
    all: "list_all2 (\<lambda>e item. \<exists>title link.
             map_of e ''title'' = Some title \<and> map_of e ''link'' = Some link
           \<and> item = JObj [(''title'', title), (''link'', link),
                          (''published'', dict_get e ''published'')]) es new"
    by blast
  show ?case
  proof (intro exI conjI)
    show "items = acc @ (JObj [(''title'', title), (''link'', link),
                          (''published'', dict_get e ''published'')] # new)"
      using new by simp
    show "list_all2 (\<lambda>e item. \<exists>title link.
             map_of e ''title'' = Some title \<and> map_of e ''link'' = Some link
           \<and> item = JObj [(''title'', title), (''link'', link),
                          (''published'', dict_get e ''published'')]) (e # es)
            (JObj [(''title'', title), (''link'', link),
                          (''published'', dict_get e ''published'')] # new)"
      using all title link by simp
  qed
qed

lemma news_loop_total:
  "(\<forall>e \<in> set es. map_of e ''title'' \<noteq> None \<and> map_of e ''link'' \<noteq> None) \<Longrightarrow>
     \<exists>items. news_loop es acc = Inr items"
  by (induction es arbitrary: acc) (auto simp: entry_attr_def)

lemma news_unfold:
  "news env query w =
     (case news_loop (take 12 (feedparser_parse env (rss_url query))) [] of
        Inl e \<Rightarrow> (Inl e, w\<lparr>calls := calls w @ [FeedParse (rss_url query)]\<rparr>)
      | Inr items \<Rightarrow>
          (Inr (Returned (JObj [(''query'', JStr query), (''items'', JArr items)])),
           w\<lparr>calls := calls w @ [FeedParse (rss_url query)]\<rparr>))"
  by (simp add: news_def and_then_def outbound_call_def pure_step_def ret_def split: sum.splits)

text \<open>
  C7. Whenever \<^verbatim>\<open>GET /api/news\<close> returns, the answer is \<open>{query, items}\<close> where \<open>items\<close>
  has at most 12 elements, one per entry of the first 12 feed entries and in their order;
  each item carries the title and the link of its entry, and \<open>published\<close> is the entry's
  or \<^verbatim>\<open>None\<close> when the entry has none. It returns whenever each of the first 12 entries has
  a title and a link (an entry without one raises \<^verbatim>\<open>AttributeError\<close>).
\<close>

theorem news_returns_first_twelve_entries:
  "(news env query w = (Inr resp, w') \<longrightarrow>
      (\<exists>items. resp = Returned (JObj [(''query'', JStr query), (''items'', JArr items)])
         \<and> length items \<le> 12
         \<and> list_all2 (\<lambda>e item. \<exists>title link.
               map_of e ''title'' = Some title \<and> map_of e ''link'' = Some link
             \<and> item = JObj [(''title'', title), (''link'', link),
                   (''published'',
                      case map_of e ''published'' of None \<Rightarrow> JNull | Some p \<Rightarrow> p)])
             (take 12 (feedparser_parse env (rss_url query))) items))
   \<and> ((\<forall>e \<in> set (take 12 (feedparser_parse env (rss_url query))).
          map_of e ''title'' \<noteq> None \<and> map_of e ''link'' \<noteq> None) \<longrightarrow>
        (\<exists>resp w'. news env query w = (Inr resp, w')))"
proof (intro conjI impI)
  assume run: "news env query w = (Inr resp, w')"
  let ?es = "take 12 (feedparser_parse env (rss_url query))"
  from run obtain items where
    loop: "news_loop ?es [] = Inr items" and
    resp: "resp = Returned (JObj [(''query'', JStr query), (''items'', JArr items)])"
    by (auto simp: news_unfold split: sum.splits)
  from news_loop_items [OF loop] have
    all: "list_all2 (\<lambda>e item. \<exists>title link.
               map_of e ''title'' = Some title \<and> map_of e ''link'' = Some link
             \<and> item = JObj [(''title'', title), (''link'', link),
                   (''published'', dict_get e ''published'')]) ?es items"
    by simp
  from all have "length ?es = length items"
    by (rule list_all2_lengthD)
  then have short: "length items \<le> 12"
    by simp
  show "\<exists>items. resp = Returned (JObj [(''query'', JStr query), (''items'', JArr items)])
         \<and> length items \<le> 12
         \<and> list_all2 (\<lambda>e item. \<exists>title link.
               map_of e ''title'' = Some title \<and> map_of e ''link'' = Some link
             \<and> item = JObj [(''title'', title), (''link'', link),
                   (''published'',
                      case map_of e ''published'' of None \<Rightarrow> JNull | Some p \<Rightarrow> p)])
             ?es items"
    using resp short all unfolding dict_get_def by blast
next
  assume "\<forall>e \<in> set (take 12 (feedparser_parse env (rss_url query))).
          map_of e ''title'' \<noteq> None \<and> map_of e ''link'' \<noteq> None"
  from news_loop_total [OF this, of "[]"]
  show "\<exists>resp w'. news env query w = (Inr resp, w')"
    by (auto simp: news_unfold)
qed

theorem news_returns_first_twelve_entries_witness:
  "news demo_env ''top stories'' empty_world =
     (Inr (Returned (JObj [(''query'', JStr ''top stories''),
        (''items'', JArr
           [JObj [(''title'', JStr ''First''), (''link'', JStr ''https://example.org/1''),
                  (''published'', JStr ''Mon, 02 Nov 2026 10:00:00 GMT'')],
            JObj [(''title'', JStr ''Second''), (''link'', JStr ''https://example.org/2''),
                  (''published'', JNull)]])])),
      empty_world\<lparr>calls :=
        [FeedParse ''https://news.google.com/rss/search?q=top+stories&hl=en-IN&gl=IN&ceid=IN:en'']\<rparr>)
   \<and> (\<exists>items. fst (news demo_env ''top stories'' empty_world) =
         Inr (Returned (JObj [(''query'', JStr ''top stories''), (''items'', JArr items)]))
       \<and> length items \<le> 12)"
proof -
  have run: "news demo_env ''top stories'' empty_world =
     (Inr (Returned (JObj [(''query'', JStr ''top stories''),
        (''items'', JArr
           [JObj [(''title'', JStr ''First''), (''link'', JStr ''https://example.org/1''),
                  (''published'', JStr ''Mon, 02 Nov 2026 10:00:00 GMT'')],
            JObj [(''title'', JStr ''Second''), (''link'', JStr ''https://example.org/2''),
                  (''published'', JNull)]])])),
      empty_world\<lparr>calls :=
        [FeedParse ''https://news.google.com/rss/search?q=top+stories&hl=en-IN&gl=IN&ceid=IN:en'']\<rparr>)"
    by (simp add: news_unfold demo_env_def demo_feed_def rss_url_def replace_space_plus_def
        entry_attr_def dict_get_def empty_world_def)
  from news_returns_first_twelve_entries
    [of demo_env "''top stories''" empty_world _ _, THEN conjunct1, THEN mp, OF run]
  obtain items where
    "Returned (JObj [(''query'', JStr ''top stories''),
        (''items'', JArr
           [JObj [(''title'', JStr ''First''), (''link'', JStr ''https://example.org/1''),
                  (''published'', JStr ''Mon, 02 Nov 2026 10:00:00 GMT'')],
            JObj [(''title'', JStr ''Second''), (''link'', JStr ''https://example.org/2''),
                  (''published'', JNull)]])]) =
     Returned (JObj [(''query'', JStr ''top stories''), (''items'', JArr items)])"
    and "length items \<le> 12"
    by blast
  then have "\<exists>items. fst (news demo_env ''top stories'' empty_world) =
         Inr (Returned (JObj [(''query'', JStr ''top stories''), (''items'', JArr items)]))
       \<and> length items \<le> 12"
    by (simp add: run)
  with run show ?thesis by blast
qed

subsection \<open>Places\<close>




subsection \<open>Movies with an API key\<close>

text \<open>Steps that return: a pure step hands its value on, an outbound call is logged first.\<close>

lemma and_then_pure_step:
  "and_then (pure_step (Inr x)) f w = f x w"
  by (simp add: and_then_def pure_step_def)

lemma and_then_outbound_call:
  "and_then (outbound_call c (Inr x)) f w = f x (w\<lparr>calls := calls w @ [c]\<rparr>)"
  by (simp add: and_then_def outbound_call_def)


text \<open>
  A genre list of objects with string names, none of which equals \<open>genre\<close> after
  lower-casing, leaves \<^verbatim>\<open>genre_id\<close> at \<^verbatim>\<open>None\<close>.
\<close>

lemma find_genre_id_no_match:
  "(\<forall>g \<in> set gs. \<exists>d name. g = JObj d \<and> map_of d ''name'' = Some (JStr name)
        \<and> lower name \<noteq> lower genre) \<Longrightarrow>
     find_genre_id gs genre = Inr JNull"
  by (induction gs) auto

text \<open>
  With a key, a genre list that decodes and a lookup loop that ends with \<open>genre_id\<close>, the
  handler makes two requests: the genre list, then the discovery with the parameters that
  \<open>discover_params\<close> builds from \<open>genre_id\<close>.
\<close>

lemma movies_with_key:
  assumes key: "TMDB_API_KEY env \<noteq> []"
    and listed: "httpx_send env (get_request ''https://api.themoviedb.org/3/genre/movie/list''
                   [(''api_key'', JStr (TMDB_API_KEY env))]) = Inr genres_r"
    and ok: "raise_for_status genres_r = Inr ()"
    and decoded: "resp_json genres_r = Some j"
    and genres: "py_get j ''genres'' (JArr []) = Inr genres"
    and iter: "py_iter genres = Inr gs"
    and found: "find_genre_id gs genre = Inr genre_id"
  shows "calls (snd (movies env genre page w)) =
     calls w @ [Httpx (get_request ''https://api.themoviedb.org/3/genre/movie/list''
                   [(''api_key'', JStr (TMDB_API_KEY env))]),
                Httpx (get_request ''https://api.themoviedb.org/3/discover/movie''
                   (discover_params env page genre_id))]"
proof -
  let ?w1 = "w\<lparr>calls := calls w @ [Httpx (get_request
      ''https://api.themoviedb.org/3/genre/movie/list'' [(''api_key'', JStr (TMDB_API_KEY env))])]\<rparr>"
  have "movies env genre page w =
      and_then (client_send env (get_request ''https://api.themoviedb.org/3/discover/movie''
                   (discover_params env page genre_id))) checked_json ?w1"
    using key
    by (simp add: movies_def client_send_def listed and_then_outbound_call ok
        and_then_pure_step response_json_def decoded genres iter found)
  then show ?thesis
    by (simp add: calls_after_checked_request)
qed

text \<open>
  A \<open>genre\<close> that matches no known name gives a discovery request without
  \<open>with_genres\<close>; a \<open>genre\<close> whose first match has a non-zero integer id gives a discovery
  request with \<open>with_genres\<close> set to that id.
\<close>

lemma movies_unknown_genre_is_unfiltered:
  assumes key: "TMDB_API_KEY env \<noteq> []"
    and listed: "httpx_send env (get_request ''https://api.themoviedb.org/3/genre/movie/list''
                   [(''api_key'', JStr (TMDB_API_KEY env))]) = Inr genres_r"
    and ok: "raise_for_status genres_r = Inr ()"
    and decoded: "resp_json genres_r = Some (JObj [(''genres'', JArr gs)])"
    and unknown: "\<forall>g \<in> set gs. \<exists>d name. g = JObj d \<and> map_of d ''name'' = Some (JStr name)
        \<and> lower name \<noteq> lower genre"
  shows "calls (snd (movies env genre page w)) =
     calls w @ [Httpx (get_request ''https://api.themoviedb.org/3/genre/movie/list''
                   [(''api_key'', JStr (TMDB_API_KEY env))]),
                Httpx (get_request ''https://api.themoviedb.org/3/discover/movie''
                   [(''api_key'', JStr (TMDB_API_KEY env)), (''page'', JInt page)])]"
proof -
  have params: "discover_params env page JNull =
      [(''api_key'', JStr (TMDB_API_KEY env)), (''page'', JInt page)]"
    by (simp add: discover_params_def)
  from movies_with_key [OF key listed ok decoded _ _ find_genre_id_no_match [OF unknown],
      of "JArr gs" page w]
  show ?thesis by (simp add: params)
qed



subsection \<open>Stock\<close>

text \<open>
  What the body of \<^verbatim>\<open>fetch_stock_price\<close> computes once the ticker's info is there: the
  live price when it is not \<^verbatim>\<open>None\<close>, else the last close of a non-empty history, else
  \<^verbatim>\<open>None\<close>; always with \<open>symbol\<close> and the two \<open>info_head\<close> fields.
\<close>

lemma fetch_stock_price_body:
  assumes info: "yf_info env symbol = Inr info"
  shows "(dict_get info ''regularMarketPrice'' \<noteq> JNull \<longrightarrow>
            fst (fetch_stock_price env symbol w) =
              Inr (JObj [(''symbol'', JStr symbol),
                         (''price'', dict_get info ''regularMarketPrice''),
                         (''info_head'', JObj [(''shortName'', dict_get info ''shortName''),
                                               (''currency'', dict_get info ''currency'')])]))
       \<and> (dict_get info ''regularMarketPrice'' = JNull \<longrightarrow>
            yf_history env symbol ''1d'' = Inr hist \<longrightarrow> hist \<noteq> [] \<longrightarrow>
            fst (fetch_stock_price env symbol w) =
              Inr (JObj [(''symbol'', JStr symbol),
                         (''price'', JFloat (last hist)),
                         (''info_head'', JObj [(''shortName'', dict_get info ''shortName''),
                                               (''currency'', dict_get info ''currency'')])]))
       \<and> (dict_get info ''regularMarketPrice'' = JNull \<longrightarrow>
            yf_history env symbol ''1d'' = Inr [] \<longrightarrow>
            fst (fetch_stock_price env symbol w) =
              Inr (JObj [(''symbol'', JStr symbol),
                         (''price'', JNull),
                         (''info_head'', JObj [(''shortName'', dict_get info ''shortName''),
                                               (''currency'', dict_get info ''currency'')])]))"
  using info
  by (simp add: fetch_stock_price_def and_then_def outbound_call_def ret_def Let_def)

text \<open>
  C4. \<^verbatim>\<open>GET /api/stock\<close> is meant to return \<open>{symbol, price, info_head}\<close> with the price
  rules above. The handler never runs that body: for every symbol it returns the
  coroutine object that calling the \<^verbatim>\<open>async def\<close> function in the thread pool makes, which
  the framework cannot serialise (status 500), and no outbound call is made. For the
  symbol \<open>HIST\<close>, with no live price and a history ending at the close \<open>100.0\<close>, the body
  would give that close as the price; the handler gives the coroutine.
\<close>

theorem get_stock_returns_unawaited_coroutine:
  "get_stock env symbol w = (Inr (ReturnedCoroutine ''fetch_stock_price''), w)
   \<and> status_of (ReturnedCoroutine ''fetch_stock_price'') = 500
   \<and> fst (fetch_stock_price demo_env ''HIST'' empty_world) =
       Inr (JObj [(''symbol'', JStr ''HIST''),
                  (''price'', JFloat 0x4059000000000000),
                  (''info_head'', JObj [(''shortName'', JStr ''Other''), (''currency'', JNull)])])
   \<and> get_stock demo_env ''HIST'' empty_world =
       (Inr (ReturnedCoroutine ''fetch_stock_price''), empty_world)"
proof -
  have handler: "get_stock env symbol w = (Inr (ReturnedCoroutine ''fetch_stock_price''), w)"
    by (simp add: get_stock_def run_in_threadpool_async_def ret_def)
  have at_input: "get_stock demo_env ''HIST'' empty_world =
       (Inr (ReturnedCoroutine ''fetch_stock_price''), empty_world)"
    by (simp add: get_stock_def run_in_threadpool_async_def ret_def)
  have info: "yf_info demo_env ''HIST'' = Inr [(''shortName'', JStr ''Other'')]"
    by (simp add: demo_env_def demo_info_def)
  have hist: "yf_history demo_env ''HIST'' ''1d'' = Inr [0x4058C00000000000, 0x4059000000000000]"
    by (simp add: demo_env_def demo_history_def)
  have body: "fst (fetch_stock_price demo_env ''HIST'' empty_world) =
       Inr (JObj [(''symbol'', JStr ''HIST''),
                  (''price'', JFloat 0x4059000000000000),
                  (''info_head'', JObj [(''shortName'', JStr ''Other''), (''currency'', JNull)])])"
    using fetch_stock_price_body [OF info, of empty_world, THEN conjunct2, THEN conjunct1]
    by (simp add: dict_get_def hist)
  show ?thesis
    using handler at_input body by simp
qed

end
